theory Spec2Isabelle
  imports Main
begin

section \<open>Data model\<close>

text \<open>
  The meal planner keeps its plan as a list of meal dictionaries, each with a \<open>'name'\<close>
  and an \<open>'items'\<close> list; every item is a dictionary with the keys \<open>'food_text'\<close>,
  \<open>'amount'\<close>, \<open>'protein'\<close>, \<open>'carbs'\<close> and \<open>'fat'\<close>.  The code reads almost every
  key with \<open>dict.get\<close>, so a key may be absent: each field is an option, \<open>None\<close> for an
  absent key.  The numeric fields are Python integers (the form widgets are created with
  integer bounds and defaults), hence unbounded \<open>int\<close>.  Text is a \<open>string\<close>; a character
  outside ASCII is the sequence of its UTF-8 bytes.
\<close>

record item =
  food_text :: "string option"
  amount :: "int option"
  protein :: "int option"
  carbs :: "int option"
  fat :: "int option"

record meal =
  name :: "string option"
  items :: "item list option"

text \<open>The exceptions that the modelled code can raise.\<close>

datatype error = ValueError | KeyError | IndexError | LibraryError

text \<open>
  \<open>reshape_arabic\<close> accepts any object: it tests its truth value and converts it with
  \<open>str\<close>.  The values are \<open>None\<close>, booleans, integers, text, and objects of any other
  class, given by what their truth test and their \<open>str\<close> return or raise.
\<close>

datatype pyval =
    PyNone
  | PyBool bool
  | PyInt int
  | PyStr string
  | PyObject "error + bool" "error + string"

text \<open>
  The two functions of the shaping libraries (\<open>arabic_reshaper.reshape\<close> and
  \<open>bidi.algorithm.get_display\<close>) are not part of the program; they are parameters of the
  model.  Each maps a text to a text or raises, \<open>Inl\<close> being the exception.
\<close>

record shaping_lib =
  reshape :: "string \<Rightarrow> error + string"
  get_display :: "string \<Rightarrow> error + string"

text \<open>
  The flowables handed to the document builder.  Fonts, colours, column widths and the
  serialisation to bytes belong to the PDF library and are not modelled: the result of
  document generation is the list of elements that the code passes to \<open>doc.build\<close>.
\<close>

datatype style = HeaderStyle | FooterStyle

datatype flowable = Paragraph string style | Spacer nat nat | Table "string list list"

section \<open>Built-ins\<close>

text \<open>\<open>d.get(key, default)\<close> on a field that may be absent.\<close>

definition dict_get :: "'a option \<Rightarrow> 'a \<Rightarrow> 'a" where
  "dict_get v dflt = (case v of None \<Rightarrow> dflt | Some x \<Rightarrow> x)"

text \<open>\<open>xs[i]\<close> for a non-negative index.\<close>

definition py_index :: "'a list \<Rightarrow> nat \<Rightarrow> error + 'a" where
  "py_index xs i = (if i < length xs then Inr (xs ! i) else Inl IndexError)"

text \<open>
  The built-in \<open>sum\<close> starts from 0 and adds the elements from left to right; the built-in
  \<open>max\<close> raises \<open>ValueError\<close> on an empty sequence and otherwise keeps the largest element
  seen so far.
\<close>

definition py_sum :: "int list \<Rightarrow> int" where
  "py_sum xs = foldl (+) 0 xs"

fun py_max :: "nat list \<Rightarrow> error + nat" where
  "py_max [] = Inl ValueError"
| "py_max (x # xs) = Inr (foldl max x xs)"

text \<open>
  The truth value of an object, as tested by \<open>if\<close> and \<open>not\<close>; the test of an object of
  another class may raise.
\<close>

fun truthy :: "pyval \<Rightarrow> error + bool" where
  "truthy PyNone = Inr False"
| "truthy (PyBool b) = Inr b"
| "truthy (PyInt n) = Inr (n \<noteq> 0)"
| "truthy (PyStr s) = Inr (s \<noteq> [])"
| "truthy (PyObject t s) = t"

text \<open>
  The decimal text of an integer: its digits, with a minus sign when negative.
\<close>

fun str_nat :: "nat \<Rightarrow> string" where
  "str_nat n =
     (if n < 10 then [''0123456789'' ! n]
      else str_nat (n div 10) @ [''0123456789'' ! (n mod 10)])"

definition str_int :: "int \<Rightarrow> string" where
  "str_int n = (if n < 0 then CHR ''-'' # str_nat (nat (- n)) else str_nat (nat n))"

text \<open>
  \<open>str\<close> of an object.  The interpreter refuses to convert an integer of more than
  \<open>sys.int_max_str_digits\<close> digits (4300 unless reconfigured; the sign is not counted) and
  raises \<open>ValueError\<close>; \<open>str\<close> of an object of another class may raise as well.
\<close>

definition int_max_str_digits :: nat where
  "int_max_str_digits = 4300"

fun py_str :: "pyval \<Rightarrow> error + string" where
  "py_str PyNone = Inr ''None''"
| "py_str (PyBool b) = Inr (if b then ''True'' else ''False'')"
| "py_str (PyInt n) =
     (if int_max_str_digits < length (str_nat (nat \<bar>n\<bar>)) then Inl ValueError
      else Inr (str_int n))"
| "py_str (PyStr s) = Inr s"
| "py_str (PyObject t s) = s"

text \<open>
  A loop that appends one result per iteration: the first exception ends it.
\<close>

fun collect :: "(error + 'a) list \<Rightarrow> error + 'a list" where
  "collect [] = Inr []"
| "collect (r # rs) =
     (case r of
        Inl e \<Rightarrow> Inl e
      | Inr x \<Rightarrow> (case collect rs of Inl e \<Rightarrow> Inl e | Inr xs \<Rightarrow> Inr (x # xs)))"

text \<open>Text whose characters are all ASCII.\<close>

definition ascii_text :: "string \<Rightarrow> bool" where
  "ascii_text s = list_all (\<lambda>c. (of_char c :: nat) < 128) s"

section \<open>String literals of the program\<close>

text \<open>The Arabic literals of the source, as their UTF-8 bytes.\<close>

definition header_prefix :: string where
  "header_prefix =
     [CHR 0xD8, CHR 0xA7, CHR 0xD9, CHR 0x84, CHR 0xD9, CHR 0x86, CHR 0xD8, CHR 0xB8,
      CHR 0xD8, CHR 0xA7, CHR 0xD9, CHR 0x85, CHR 0x20, CHR 0xD8, CHR 0xA7, CHR 0xD9,
      CHR 0x84, CHR 0xD8, CHR 0xB1, CHR 0xD8, CHR 0xA7, CHR 0xD8, CHR 0xA8, CHR 0xD8,
      CHR 0xB9, CHR 0x20, CHR 0x3A, CHR 0x20, CHR 0xD8, CHR 0xA5, CHR 0xD8, CHR 0xAC,
      CHR 0xD9, CHR 0x85, CHR 0xD8, CHR 0xA7, CHR 0xD9, CHR 0x84, CHR 0xD9, CHR 0x8A,
      CHR 0x20, CHR 0xD8, CHR 0xA7, CHR 0xD9, CHR 0x84, CHR 0xD8, CHR 0xB3, CHR 0xD8,
      CHR 0xB9, CHR 0xD8, CHR 0xB1, CHR 0xD8, CHR 0xA7, CHR 0xD8, CHR 0xAA, CHR 0x20,
      CHR 0xD8, CHR 0xA7, CHR 0xD9, CHR 0x84, CHR 0xD8, CHR 0xAD, CHR 0xD8, CHR 0xB1,
      CHR 0xD8, CHR 0xA7, CHR 0xD8, CHR 0xB1, CHR 0xD9, CHR 0x8A, CHR 0xD8, CHR 0xA9,
      CHR 0x3A, CHR 0x20]"

definition header_suffix :: string where
  "header_suffix =
     [CHR 0x20, CHR 0xD8, CHR 0xB3, CHR 0xD8, CHR 0xB9, CHR 0xD8, CHR 0xB1, CHR 0x20,
      CHR 0xD8, CHR 0xAD, CHR 0xD8, CHR 0xB1, CHR 0xD8, CHR 0xA7, CHR 0xD8, CHR 0xB1,
      CHR 0xD9, CHR 0x8A]"

definition fifth_meal :: string where
  "fifth_meal =
     [CHR 0xD8, CHR 0xA7, CHR 0xD9, CHR 0x84, CHR 0xD9, CHR 0x88, CHR 0xD8, CHR 0xAC,
      CHR 0xD8, CHR 0xA8, CHR 0xD8, CHR 0xA9, CHR 0x20, CHR 0xD8, CHR 0xA7, CHR 0xD9,
      CHR 0x84, CHR 0xD8, CHR 0xAE, CHR 0xD8, CHR 0xA7, CHR 0xD9, CHR 0x85, CHR 0xD8,
      CHR 0xB3, CHR 0xD8, CHR 0xA9]"

definition fourth_meal :: string where
  "fourth_meal =
     [CHR 0xD8, CHR 0xA7, CHR 0xD9, CHR 0x84, CHR 0xD9, CHR 0x88, CHR 0xD8, CHR 0xAC,
      CHR 0xD8, CHR 0xA8, CHR 0xD8, CHR 0xA9, CHR 0x20, CHR 0xD8, CHR 0xA7, CHR 0xD9,
      CHR 0x84, CHR 0xD8, CHR 0xB1, CHR 0xD8, CHR 0xA7, CHR 0xD8, CHR 0xA8, CHR 0xD8,
      CHR 0xB9, CHR 0xD8, CHR 0xA9]"

definition third_meal :: string where
  "third_meal =
     [CHR 0xD8, CHR 0xA7, CHR 0xD9, CHR 0x84, CHR 0xD9, CHR 0x88, CHR 0xD8, CHR 0xAC,
      CHR 0xD8, CHR 0xA8, CHR 0xD8, CHR 0xA9, CHR 0x20, CHR 0xD8, CHR 0xA7, CHR 0xD9,
      CHR 0x84, CHR 0xD8, CHR 0xAB, CHR 0xD8, CHR 0xA7, CHR 0xD9, CHR 0x84, CHR 0xD8,
      CHR 0xAB, CHR 0xD8, CHR 0xA9]"

definition second_meal :: string where
  "second_meal =
     [CHR 0xD8, CHR 0xA7, CHR 0xD9, CHR 0x84, CHR 0xD9, CHR 0x88, CHR 0xD8, CHR 0xAC,
      CHR 0xD8, CHR 0xA8, CHR 0xD8, CHR 0xA9, CHR 0x20, CHR 0xD8, CHR 0xA7, CHR 0xD9,
      CHR 0x84, CHR 0xD8, CHR 0xAB, CHR 0xD8, CHR 0xA7, CHR 0xD9, CHR 0x86, CHR 0xD9,
      CHR 0x8A, CHR 0xD8, CHR 0xA9]"

definition first_meal :: string where
  "first_meal =
     [CHR 0xD8, CHR 0xA7, CHR 0xD9, CHR 0x84, CHR 0xD9, CHR 0x88, CHR 0xD8, CHR 0xAC,
      CHR 0xD8, CHR 0xA8, CHR 0xD8, CHR 0xA9, CHR 0x20, CHR 0xD8, CHR 0xA7, CHR 0xD9,
      CHR 0x84, CHR 0xD8, CHR 0xA3, CHR 0xD9, CHR 0x88, CHR 0xD9, CHR 0x84, CHR 0xD9,
      CHR 0x89]"

definition gram_word :: string where
  "gram_word =
     [CHR 0xD8, CHR 0xAC, CHR 0xD8, CHR 0xB1, CHR 0xD8, CHR 0xA7, CHR 0xD9, CHR 0x85]"

definition total_protein_caption :: string where
  "total_protein_caption =
     [CHR 0xD8, CHR 0xA5, CHR 0xD8, CHR 0xAC, CHR 0xD9, CHR 0x85, CHR 0xD8, CHR 0xA7,
      CHR 0xD9, CHR 0x84, CHR 0xD9, CHR 0x8A, CHR 0x20, CHR 0xD8, CHR 0xA7, CHR 0xD9,
      CHR 0x84, CHR 0xD8, CHR 0xA8, CHR 0xD8, CHR 0xB1, CHR 0xD9, CHR 0x88, CHR 0xD8,
      CHR 0xAA, CHR 0xD9, CHR 0x8A, CHR 0xD9, CHR 0x86, CHR 0x3A, CHR 0x20]"

definition total_carbs_caption :: string where
  "total_carbs_caption =
     [CHR 0xD8, CHR 0xA5, CHR 0xD8, CHR 0xAC, CHR 0xD9, CHR 0x85, CHR 0xD8, CHR 0xA7,
      CHR 0xD9, CHR 0x84, CHR 0xD9, CHR 0x8A, CHR 0x20, CHR 0xD8, CHR 0xA7, CHR 0xD9,
      CHR 0x84, CHR 0xD9, CHR 0x83, CHR 0xD8, CHR 0xB1, CHR 0xD8, CHR 0xA8, CHR 0xD9,
      CHR 0x88, CHR 0xD9, CHR 0x87, CHR 0xD9, CHR 0x8A, CHR 0xD8, CHR 0xAF, CHR 0xD8,
      CHR 0xB1, CHR 0xD8, CHR 0xA7, CHR 0xD8, CHR 0xAA, CHR 0x3A, CHR 0x20]"

definition total_fat_caption :: string where
  "total_fat_caption =
     [CHR 0xD8, CHR 0xA5, CHR 0xD8, CHR 0xAC, CHR 0xD9, CHR 0x85, CHR 0xD8, CHR 0xA7,
      CHR 0xD9, CHR 0x84, CHR 0xD9, CHR 0x8A, CHR 0x20, CHR 0xD8, CHR 0xA7, CHR 0xD9,
      CHR 0x84, CHR 0xD8, CHR 0xAF, CHR 0xD9, CHR 0x87, CHR 0xD9, CHR 0x88, CHR 0xD9,
      CHR 0x86, CHR 0x3A, CHR 0x20]"

definition gram_sign :: string where
  "gram_sign =
     [CHR 0xD8, CHR 0xBA]"

section \<open>The shaping transform\<close>

text \<open>
  \<^verbatim>\<open>
  def reshape_arabic(text):
      if not text:
          return ""
      try:
          reshaped_text = arabic_reshaper.reshape(str(text))
          return get_display(reshaped_text)
      except:
          return str(text)  # Fallback if reshaping fails
  \<close>
\<close>

text \<open>
  The truth test of line 64 is outside the \<open>try\<close> and so is the \<open>str(text)\<close> of the
  handler on line 70: an exception of either leaves the function.  Inside the \<open>try\<close>,
  an exception of \<open>str(text)\<close> or of either library call leads to the handler.
\<close>

definition reshape_arabic :: "shaping_lib \<Rightarrow> pyval \<Rightarrow> error + string" where
  "reshape_arabic lib text =
     (case truthy text of
        Inl e \<Rightarrow> Inl e
      | Inr t \<Rightarrow>
          if \<not> t then Inr ''''
          else (case (case py_str text of
                        Inl e \<Rightarrow> Inl e
                      | Inr s \<Rightarrow>
                          (case reshape lib s of
                             Inl e \<Rightarrow> Inl e
                           | Inr reshaped_text \<Rightarrow> get_display lib reshaped_text)) of
                  Inr shown \<Rightarrow> Inr shown
                | Inl e \<Rightarrow> py_str text))"

section \<open>The aggregator\<close>

text \<open>
  \<^verbatim>\<open>
  def calculate_macros(meals_data):
      total_protein = sum(item.get('protein', 0) for meal in meals_data for item in meal.get('items', []))
      total_carbs = sum(item.get('carbs', 0) for meal in meals_data for item in meal.get('items', []))
      total_fat = sum(item.get('fat', 0) for meal in meals_data for item in meal.get('items', []))
      total_calories = (total_protein * 4) + (total_carbs * 4) + (total_fat * 9)
      return total_protein, total_carbs, total_fat, total_calories
  \<close>
\<close>

definition calculate_macros :: "meal list \<Rightarrow> int \<times> int \<times> int \<times> int" where
  "calculate_macros meals_data =
     (let total_protein =
            py_sum [dict_get (protein item) 0. meal \<leftarrow> meals_data, item \<leftarrow> dict_get (items meal) []];
          total_carbs =
            py_sum [dict_get (carbs item) 0. meal \<leftarrow> meals_data, item \<leftarrow> dict_get (items meal) []];
          total_fat =
            py_sum [dict_get (fat item) 0. meal \<leftarrow> meals_data, item \<leftarrow> dict_get (items meal) []];
          total_calories = (total_protein * 4) + (total_carbs * 4) + (total_fat * 9)
      in (total_protein, total_carbs, total_fat, total_calories))"

section \<open>The report grid and the document\<close>

text \<open>
  The header row of the table, from the fifth meal down to the first:
  \<^verbatim>\<open>
  meal_headers = [reshape_arabic("..."), ...]
  \<close>
\<close>

definition meal_headers :: "shaping_lib \<Rightarrow> error + string list" where
  "meal_headers lib =
     collect
       [reshape_arabic lib (PyStr fifth_meal),
        reshape_arabic lib (PyStr fourth_meal),
        reshape_arabic lib (PyStr third_meal),
        reshape_arabic lib (PyStr second_meal),
        reshape_arabic lib (PyStr first_meal)]"

text \<open>
  The label of an item, the final value of the local \<open>food_text\<close>.  The amount is tested
  for truth: an absent amount (\<open>None\<close>) and 0 are false.
  \<^verbatim>\<open>
  food_text = item.get('food_text', '')
  if item.get('amount'):
      food_text = f"{item.get('amount')} <gram> {food_text}"
  \<close>
\<close>

definition item_label :: "item \<Rightarrow> string" where
  "item_label it =
     (let text0 = dict_get (food_text it) ''''
      in case amount it of
           None \<Rightarrow> text0
         | Some a \<Rightarrow>
             if a \<noteq> 0 then str_int a @ '' '' @ gram_word @ '' '' @ text0 else text0)"

text \<open>
  One cell, the body of the inner loop.  The subscripts \<open>meals_data[meal_idx]\<close>,
  \<open>['items']\<close> and \<open>[row_idx]\<close> raise when the index or key is missing.
  \<^verbatim>\<open>
  if meal_idx < len(meals_data) and row_idx < len(meals_data[meal_idx].get('items', [])):
      item = meals_data[meal_idx]['items'][row_idx]
      ...
      row.append(reshape_arabic(food_text))
  else:
      row.append("")
  \<close>
\<close>

definition cell :: "shaping_lib \<Rightarrow> meal list \<Rightarrow> nat \<Rightarrow> nat \<Rightarrow> error + string" where
  "cell lib meals_data meal_idx row_idx =
     (if meal_idx < length meals_data \<and>
         row_idx < length (dict_get (items (meals_data ! meal_idx)) [])
      then (case py_index meals_data meal_idx of
              Inl e \<Rightarrow> Inl e
            | Inr m \<Rightarrow>
                (case items m of
                   None \<Rightarrow> Inl KeyError
                 | Some its \<Rightarrow>
                     (case py_index its row_idx of
                        Inl e \<Rightarrow> Inl e
                      | Inr it \<Rightarrow> reshape_arabic lib (PyStr (item_label it)))))
      else Inr '''')"

text \<open>
  One body row: \<open>for meal_idx in range(4, -1, -1)\<close>, that is 4, 3, 2, 1, 0.
\<close>

definition row :: "shaping_lib \<Rightarrow> meal list \<Rightarrow> nat \<Rightarrow> error + string list" where
  "row lib meals_data row_idx =
     collect (map (\<lambda>meal_idx. cell lib meals_data meal_idx row_idx) [4, 3, 2, 1, 0])"

text \<open>
  The table data: the header row, then one row for each index below the largest item
  count.
  \<^verbatim>\<open>
  data = [meal_headers]
  max_items = max(len(meal.get('items', [])) for meal in meals_data)
  for row_idx in range(max_items):
      ...
      data.append(row)
  \<close>
\<close>

definition data :: "shaping_lib \<Rightarrow> meal list \<Rightarrow> error + string list list" where
  "data lib meals_data =
     (case meal_headers lib of
        Inl e \<Rightarrow> Inl e
      | Inr headers \<Rightarrow>
          (case py_max [length (dict_get (items m) []). m \<leftarrow> meals_data] of
             Inl e \<Rightarrow> Inl e
           | Inr max_items \<Rightarrow>
               (case collect (map (row lib meals_data) [0..<max_items]) of
                  Inl e \<Rightarrow> Inl e
                | Inr rows \<Rightarrow> Inr (headers # rows))))"

text \<open>
  \<open>create_meal_plan_pdf(client_name, total_calories, meals_data)\<close>: the macros, the header
  paragraph, the table, the macro summary and the attribution line, in the order in which
  the code computes and appends them.

  The integers that the f-strings of this function format (the amounts, the declared
  calories and the totals) are values of the form's number widgets and sums of a few of
  them, far below the interpreter's limit on conversion; their text is \<open>str_int\<close>,
  without the limit.
\<close>

definition create_meal_plan_pdf ::
  "shaping_lib \<Rightarrow> string \<Rightarrow> int \<Rightarrow> meal list \<Rightarrow> error + flowable list" where
  "create_meal_plan_pdf lib client_name total_calories meals_data =
     (case calculate_macros meals_data of
        (total_protein, total_carbs, total_fat, calculated_calories) \<Rightarrow>
          (case reshape_arabic lib
                  (PyStr (header_prefix @ str_int total_calories @ header_suffix)) of
             Inl e \<Rightarrow> Inl e
           | Inr header_text \<Rightarrow>
               (case data lib meals_data of
                  Inl e \<Rightarrow> Inl e
                | Inr d \<Rightarrow>
                    (case reshape_arabic lib
                            (PyStr (total_protein_caption @ str_int total_protein @ '' '' @
                                    gram_sign @ ''     '' @
                                    total_carbs_caption @ str_int total_carbs @ '' '' @
                                    gram_sign @ ''     '' @
                                    total_fat_caption @ str_int total_fat @ '' '' @
                                    gram_sign)) of
                       Inl e \<Rightarrow> Inl e
                     | Inr macros_text \<Rightarrow>
                         (case reshape_arabic lib
                                 (PyStr ''HTTPS://CAP-SHADOW.NETLIFY.APP/'') of
                            Inl e \<Rightarrow> Inl e
                          | Inr website_text \<Rightarrow>
                              Inr [Paragraph header_text HeaderStyle,
                                   Spacer 1 15,
                                   Table d,
                                   Spacer 1 15,
                                   Paragraph macros_text FooterStyle,
                                   Spacer 1 10,
                                   Paragraph website_text FooterStyle])))))"

section \<open>Sample inputs\<close>

text \<open>
  Two stand-ins for the shaping libraries: one that leaves ASCII text alone and reverses
  any other text, and one whose reshaping always raises.
\<close>

definition mirror_lib :: shaping_lib where
  "mirror_lib =
     \<lparr>reshape = Inr,
      get_display = (\<lambda>s. Inr (if ascii_text s then s else rev s))\<rparr>"

definition failing_lib :: shaping_lib where
  "failing_lib = \<lparr>reshape = (\<lambda>s. Inl LibraryError), get_display = Inr\<rparr>"

text \<open>The plan of the specification's example: one item in the first of five meals.\<close>

definition rice :: item where
  "rice = \<lparr>food_text = Some ''rice'', amount = Some 100, protein = Some 4,
           carbs = Some 45, fat = Some 1\<rparr>"

definition empty_meal :: meal where
  "empty_meal = \<lparr>name = None, items = Some []\<rparr>"

definition rice_plan :: "meal list" where
  "rice_plan =
     [\<lparr>name = None, items = Some [rice]\<rparr>, empty_meal, empty_meal, empty_meal, empty_meal]"

definition empty_plan :: "meal list" where
  "empty_plan = [empty_meal, empty_meal, empty_meal, empty_meal, empty_meal]"

section \<open>Auxiliary facts\<close>

lemma py_sum_sum_list: "py_sum xs = sum_list xs"
proof -
  have "foldl (+) a xs = a + sum_list xs" for a :: int
    by (induction xs arbitrary: a) (simp_all add: add.assoc)
  from this [of 0] show ?thesis by (simp add: py_sum_def)
qed

lemma py_sum_nested:
  "py_sum [f it. m \<leftarrow> meals_data, it \<leftarrow> dict_get (items m) []] =
   (\<Sum>m\<leftarrow>meals_data. \<Sum>it\<leftarrow>dict_get (items m) []. f it)"
  unfolding py_sum_sum_list
  by (induction meals_data) simp_all

lemma foldl_max_Max: "foldl max x xs = Max (set (x # xs))"
proof (induction xs arbitrary: x)
  case Nil
  show ?case by simp
next
  case (Cons y ys)
  have "foldl max x (y # ys) = Max (set (max x y # ys))"
    using Cons.IH [of "max x y"] by simp
  also have "\<dots> = Max (set (x # y # ys))"
    by (cases "set ys = {}") (simp_all add: max.assoc)
  finally show ?case .
qed

lemma py_max_Max: "xs \<noteq> [] \<Longrightarrow> py_max xs = Inr (Max (set xs))"
  by (cases xs) (simp_all add: foldl_max_Max del: set_simps)

lemma collect_all_Inr:
  "(\<And>x. x \<in> set xs \<Longrightarrow> \<exists>y. f x = Inr y) \<Longrightarrow>
   collect (map f xs) = Inr (map (\<lambda>x. projr (f x)) xs)"
proof (induction xs)
  case Nil
  show ?case by simp
next
  case (Cons a as)
  from Cons.prems obtain y where "f a = Inr y" by auto
  moreover have "collect (map f as) = Inr (map (\<lambda>x. projr (f x)) as)"
    using Cons by simp
  ultimately show ?case by simp
qed

text \<open>On text the shaping transform always returns.\<close>

lemma reshape_arabic_text:
  "reshape_arabic lib (PyStr s) =
   Inr (if s = [] then []
        else (case reshape lib s of
                Inl e \<Rightarrow> s
              | Inr r \<Rightarrow> (case get_display lib r of Inl e \<Rightarrow> s | Inr shown \<Rightarrow> shown)))"
  by (simp add: reshape_arabic_def split: sum.splits)

lemma reshape_arabic_text_projr:
  "reshape_arabic lib (PyStr s) = Inr (projr (reshape_arabic lib (PyStr s)))"
  by (simp add: reshape_arabic_text)

lemma meal_headers_eq:
  "meal_headers lib =
   Inr (map (\<lambda>s. projr (reshape_arabic lib (PyStr s)))
          [fifth_meal, fourth_meal, third_meal, second_meal, first_meal])"
proof -
  have "meal_headers lib =
        collect (map (\<lambda>s. reshape_arabic lib (PyStr s))
                   [fifth_meal, fourth_meal, third_meal, second_meal, first_meal])"
    by (simp add: meal_headers_def)
  also have "\<dots> = Inr (map (\<lambda>s. projr (reshape_arabic lib (PyStr s)))
                        [fifth_meal, fourth_meal, third_meal, second_meal, first_meal])"
    by (rule collect_all_Inr) (simp add: reshape_arabic_text)
  finally show ?thesis .
qed

lemma cell_occupied:
  assumes "meal_idx < length meals_data"
    and "row_idx < length (dict_get (items (meals_data ! meal_idx)) [])"
  shows "cell lib meals_data meal_idx row_idx =
         reshape_arabic lib
           (PyStr (item_label (dict_get (items (meals_data ! meal_idx)) [] ! row_idx)))"
proof (cases "items (meals_data ! meal_idx)")
  case None
  with assms(2) show ?thesis by (simp add: dict_get_def)
next
  case (Some its)
  with assms show ?thesis by (simp add: cell_def py_index_def dict_get_def)
qed

lemma cell_blank:
  assumes "\<not> (meal_idx < length meals_data \<and>
              row_idx < length (dict_get (items (meals_data ! meal_idx)) []))"
  shows "cell lib meals_data meal_idx row_idx = Inr ''''"
  using assms by (auto simp add: cell_def)

lemma cell_total: "\<exists>s. cell lib meals_data meal_idx row_idx = Inr s"
proof (cases "meal_idx < length meals_data \<and>
              row_idx < length (dict_get (items (meals_data ! meal_idx)) [])")
  case True
  then show ?thesis by (simp add: cell_occupied reshape_arabic_text)
next
  case False
  then have "cell lib meals_data meal_idx row_idx = Inr ''''" by (rule cell_blank)
  then show ?thesis by simp
qed

lemma row_eq:
  "row lib meals_data row_idx =
   Inr (map (\<lambda>meal_idx. projr (cell lib meals_data meal_idx row_idx)) [4, 3, 2, 1, 0])"
  unfolding row_def by (rule collect_all_Inr) (rule cell_total)

lemma data_eq:
  assumes "meals_data \<noteq> []"
  shows "data lib meals_data =
         Inr (projr (meal_headers lib) #
              map (\<lambda>row_idx. map (\<lambda>meal_idx. projr (cell lib meals_data meal_idx row_idx))
                               [4, 3, 2, 1, 0])
                  [0..<Max (set (map (\<lambda>m. length (dict_get (items m) [])) meals_data))])"
proof -
  let ?counts = "map (\<lambda>m. length (dict_get (items m) [])) meals_data"
  have "?counts \<noteq> []" using assms by simp
  then have "py_max ?counts = Inr (Max (set ?counts))" by (rule py_max_Max)
  moreover have "collect (map (row lib meals_data) [0..<n]) =
                 Inr (map (\<lambda>r. projr (row lib meals_data r)) [0..<n])" for n
    by (rule collect_all_Inr) (simp add: row_eq)
  ultimately show ?thesis
    unfolding data_def meal_headers_eq by (simp add: row_eq)
qed

lemma data_Nil: "data lib [] = Inl ValueError"
  by (simp add: data_def meal_headers_eq)

lemma calculate_macros_eq:
  "calculate_macros meals_data =
   ((\<Sum>m\<leftarrow>meals_data. \<Sum>it\<leftarrow>dict_get (items m) []. dict_get (protein it) 0),
    (\<Sum>m\<leftarrow>meals_data. \<Sum>it\<leftarrow>dict_get (items m) []. dict_get (carbs it) 0),
    (\<Sum>m\<leftarrow>meals_data. \<Sum>it\<leftarrow>dict_get (items m) []. dict_get (fat it) 0),
    (\<Sum>m\<leftarrow>meals_data. \<Sum>it\<leftarrow>dict_get (items m) []. dict_get (protein it) 0) * 4 +
    (\<Sum>m\<leftarrow>meals_data. \<Sum>it\<leftarrow>dict_get (items m) []. dict_get (carbs it) 0) * 4 +
    (\<Sum>m\<leftarrow>meals_data. \<Sum>it\<leftarrow>dict_get (items m) []. dict_get (fat it) 0) * 9)"
  by (simp only: calculate_macros_def py_sum_nested Let_def)

lemma create_meal_plan_pdf_Nil:
  "create_meal_plan_pdf lib client_name total_calories [] = Inl ValueError"
  by (simp add: create_meal_plan_pdf_def data_Nil reshape_arabic_text split: prod.splits)

lemma create_meal_plan_pdf_eq:
  assumes "meals_data \<noteq> []"
  shows "create_meal_plan_pdf lib client_name total_calories meals_data =
         Inr [Paragraph (projr (reshape_arabic lib
                 (PyStr (header_prefix @ str_int total_calories @ header_suffix)))) HeaderStyle,
              Spacer 1 15,
              Table (projr (meal_headers lib) #
                map (\<lambda>row_idx. map (\<lambda>meal_idx. projr (cell lib meals_data meal_idx row_idx))
                                 [4, 3, 2, 1, 0])
                    [0..<Max (set (map (\<lambda>m. length (dict_get (items m) [])) meals_data))]),
              Spacer 1 15,
              Paragraph (projr (reshape_arabic lib
                 (PyStr (total_protein_caption @
                         str_int (\<Sum>m\<leftarrow>meals_data. \<Sum>it\<leftarrow>dict_get (items m) []. dict_get (protein it) 0) @
                         '' '' @ gram_sign @ ''     '' @
                         total_carbs_caption @
                         str_int (\<Sum>m\<leftarrow>meals_data. \<Sum>it\<leftarrow>dict_get (items m) []. dict_get (carbs it) 0) @
                         '' '' @ gram_sign @ ''     '' @
                         total_fat_caption @
                         str_int (\<Sum>m\<leftarrow>meals_data. \<Sum>it\<leftarrow>dict_get (items m) []. dict_get (fat it) 0) @
                         '' '' @ gram_sign)))) FooterStyle,
              Spacer 1 10,
              Paragraph (projr (reshape_arabic lib (PyStr ''HTTPS://CAP-SHADOW.NETLIFY.APP/'')))
                FooterStyle]"
proof -
  have r: "(case reshape_arabic lib (PyStr s) of Inl e \<Rightarrow> Inl e | Inr t \<Rightarrow> f t) =
           f (projr (reshape_arabic lib (PyStr s)))"
    for s and f :: "string \<Rightarrow> error + flowable list"
    by (subst (1) reshape_arabic_text_projr) (simp only: sum.case)
  show ?thesis
    unfolding create_meal_plan_pdf_def calculate_macros_eq data_eq [OF assms]
    by (simp only: prod.case sum.case r)
qed

lemma rev_range_nth: "j < 5 \<Longrightarrow> map f [4, 3, 2, 1, 0::nat] ! j = f (4 - j)"
proof -
  assume "j < 5"
  then consider "j = 0" | "j = 1" | "j = 2" | "j = 3" | "j = 4" by linarith
  then show ?thesis by cases simp_all
qed

lemma create_meal_plan_pdf_grid:
  assumes "meals_data \<noteq> []"
  shows "\<exists>elements header body.
    create_meal_plan_pdf lib client_name total_calories meals_data = Inr elements \<and>
    meal_headers lib = Inr header \<and>
    elements ! 2 = Table (header # body) \<and>
    length body = Max (set (map (\<lambda>m. length (dict_get (items m) [])) meals_data)) \<and>
    (\<forall>r. r < length body \<longrightarrow> length (body ! r) = 5) \<and>
    (\<forall>r j. r < length body \<longrightarrow> j < 5 \<longrightarrow>
       cell lib meals_data (4 - j) r = Inr (body ! r ! j))"
proof -
  let ?n = "Max (set (map (\<lambda>m. length (dict_get (items m) [])) meals_data))"
  let ?body = "map (\<lambda>row_idx. map (\<lambda>meal_idx. projr (cell lib meals_data meal_idx row_idx))
                                   [4, 3, 2, 1, 0]) [0..<?n]"
  have len: "length ?body = ?n" by simp
  have c: "?body ! r ! j = projr (cell lib meals_data (4 - j) r)" if "r < ?n" "j < 5" for r j
    using that by (simp only: nth_map length_upt diff_zero nth_upt add_0 rev_range_nth)
  have c': "cell lib meals_data (4 - j) r = Inr (?body ! r ! j)" if "r < ?n" "j < 5" for r j
    using cell_total [of lib meals_data "4 - j" r] c [OF that] by auto
  have w: "length (?body ! r) = 5" if "r < ?n" for r
    using that by (simp only: nth_map length_upt diff_zero nth_upt add_0) simp
  have h: "meal_headers lib = Inr (projr (meal_headers lib))"
    by (simp add: meal_headers_eq)
  obtain elements where e:
    "create_meal_plan_pdf lib client_name total_calories meals_data = Inr elements"
    "elements ! 2 = Table (projr (meal_headers lib) # ?body)"
    using create_meal_plan_pdf_eq [OF assms, of lib client_name total_calories] by simp
  show ?thesis
  proof (intro exI [of _ elements] exI [of _ ?body] exI [of _ "projr (meal_headers lib)"]
      conjI allI impI)
    show "create_meal_plan_pdf lib client_name total_calories meals_data = Inr elements"
      by (rule e(1))
    show "meal_headers lib = Inr (projr (meal_headers lib))" by (rule h)
    show "elements ! 2 = Table (projr (meal_headers lib) # ?body)" by (rule e(2))
    show "length ?body = ?n" by (rule len)
    show "length (?body ! r) = 5" if "r < length ?body" for r
      using that w by (simp only: len)
    show "cell lib meals_data (4 - j) r = Inr (?body ! r ! j)"
      if "r < length ?body" "j < 5" for r j
      using that c' by (simp only: len)
  qed
qed

text \<open>An integer has fewer digits than the limit only if it is below the power of ten.\<close>

lemma str_nat_bound: "n < 10 ^ length (str_nat n)"
proof (induction n rule: str_nat.induct)
  case (1 n)
  show ?case
  proof (cases "n < 10")
    case True
    then show ?thesis by (subst str_nat.simps) simp
  next
    case False
    with "1" have "n div 10 < 10 ^ length (str_nat (n div 10))" by simp
    then have "n < 10 * 10 ^ length (str_nat (n div 10))" by linarith
    moreover have "length (str_nat n) = Suc (length (str_nat (n div 10)))"
      using False by (subst str_nat.simps) simp
    ultimately show ?thesis by simp
  qed
qed

lemma py_str_long_int:
  assumes "10 ^ int_max_str_digits \<le> \<bar>n\<bar>"
  shows "py_str (PyInt n) = Inl ValueError"
proof -
  have "(10::nat) ^ int_max_str_digits \<le> nat \<bar>n\<bar>"
  proof -
    have "int (10 ^ int_max_str_digits) \<le> \<bar>n\<bar>" using assms by simp
    then show ?thesis by linarith
  qed
  also have "nat \<bar>n\<bar> < 10 ^ length (str_nat (nat \<bar>n\<bar>))" by (rule str_nat_bound)
  finally have "int_max_str_digits < length (str_nat (nat \<bar>n\<bar>))"
    by (simp only: power_strict_increasing_iff [of "10::nat"] one_less_numeral_iff
        semiring_norm)
  then show ?thesis by (simp only: py_str.simps if_True)
qed

section \<open>The aggregator: calories, missing fields, empty plans\<close>

text \<open>
  Claim C1.  For every meal collection, the total calories returned by the aggregator are
  total protein times 4 plus total carbs times 4 plus total fat times 9, and each of the
  three totals is the sum of that field over all items of all meals (an absent field
  counting as 0, an absent item list as empty).
\<close>

theorem calculate_macros_calories:
  "case calculate_macros meals_data of
     (total_protein, total_carbs, total_fat, total_calories) \<Rightarrow>
       total_calories = total_protein * 4 + total_carbs * 4 + total_fat * 9 \<and>
       total_protein =
         (\<Sum>m\<leftarrow>meals_data. \<Sum>it\<leftarrow>dict_get (items m) []. dict_get (protein it) 0) \<and>
       total_carbs =
         (\<Sum>m\<leftarrow>meals_data. \<Sum>it\<leftarrow>dict_get (items m) []. dict_get (carbs it) 0) \<and>
       total_fat =
         (\<Sum>m\<leftarrow>meals_data. \<Sum>it\<leftarrow>dict_get (items m) []. dict_get (fat it) 0)"
  by (simp add: calculate_macros_eq)

text \<open>
  The plan of the specification's example gives 4, 45, 1 and 205.
\<close>

theorem calculate_macros_calories_witness:
  "calculate_macros rice_plan = (4, 45, 1, 4 * 4 + 45 * 4 + 1 * 9)"
  using calculate_macros_calories [of rice_plan]
  by (simp add: rice_plan_def rice_def empty_meal_def dict_get_def split: prod.splits)

text \<open>
  Claim C5.  The aggregator is a total function of the meal list: no operation in it can
  raise on a list of meals with numeric fields, so the model has no error result.  An
  absent protein, carbs or fat field contributes zero: putting 0 in every absent field
  (and an empty list for an absent item list) leaves all four results unchanged.  Zero
  meals, a meal without an item list, a meal with zero items and an item with none of the
  three fields all contribute nothing.
\<close>

theorem calculate_macros_missing_fields:
  "calculate_macros
     (map (\<lambda>m. m\<lparr>items :=
              Some (map (\<lambda>it. it\<lparr>protein := Some (dict_get (protein it) 0),
                                 carbs := Some (dict_get (carbs it) 0),
                                 fat := Some (dict_get (fat it) 0)\<rparr>)
                        (dict_get (items m) []))\<rparr>) meals_data) =
   calculate_macros meals_data \<and>
   calculate_macros [] = (0, 0, 0, 0) \<and>
   calculate_macros (\<lparr>name = n, items = None\<rparr> # meals_data) = calculate_macros meals_data \<and>
   calculate_macros (\<lparr>name = n, items = Some []\<rparr> # meals_data) = calculate_macros meals_data \<and>
   calculate_macros
     [\<lparr>name = n, items = Some [\<lparr>food_text = t, amount = a, protein = None, carbs = None,
                                fat = None\<rparr>]\<rparr>] = (0, 0, 0, 0)"
  by (simp add: calculate_macros_eq dict_get_def comp_def)

text \<open>
  Claim C6.  When the item list of every meal is empty (or absent), all four results are
  zero.
\<close>

theorem calculate_macros_all_empty:
  assumes "\<forall>m \<in> set meals_data. dict_get (items m) [] = []"
  shows "calculate_macros meals_data = (0, 0, 0, 0)"
proof -
  have "(\<Sum>m\<leftarrow>meals_data. \<Sum>it\<leftarrow>dict_get (items m) []. f it) = 0" for f :: "item \<Rightarrow> int"
    using assms by (induction meals_data) simp_all
  then show ?thesis by (simp add: calculate_macros_eq)
qed

theorem calculate_macros_all_empty_witness:
  "list_all (\<lambda>m. dict_get (items m) [] = []) empty_plan \<and>
   calculate_macros empty_plan = (0, 0, 0, 0)"
proof -
  have h: "\<forall>m \<in> set empty_plan. dict_get (items m) [] = []"
    by (simp add: empty_plan_def empty_meal_def dict_get_def)
  from h calculate_macros_all_empty [OF h] show ?thesis by (simp add: list_all_iff)
qed

section \<open>The report grid\<close>

text \<open>
  Claim C2.  For a meal collection with at least one meal, document generation returns a
  table whose body has as many rows as the largest item count among the meals.  Every body
  row has five cells, and the cell of a column whose meal is missing or has no item at the
  row's index is the empty string.
\<close>

theorem grid_rows_and_padding:
  assumes "meals_data \<noteq> []"
  shows "\<exists>elements header body.
           create_meal_plan_pdf lib client_name total_calories meals_data = Inr elements \<and>
           meal_headers lib = Inr header \<and>
           elements ! 2 = Table (header # body) \<and>
           length body = Max (set (map (\<lambda>m. length (dict_get (items m) [])) meals_data)) \<and>
           (\<forall>row_idx < length body. length (body ! row_idx) = 5 \<and>
              (\<forall>j < 5.
                 (length meals_data \<le> 4 - j \<longrightarrow> body ! row_idx ! j = '''') \<and>
                 (4 - j < length meals_data \<and>
                  length (dict_get (items (meals_data ! (4 - j))) []) \<le> row_idx \<longrightarrow>
                  body ! row_idx ! j = '''')))"
proof -
  from create_meal_plan_pdf_grid [OF assms, of lib client_name total_calories]
  obtain elements header body where g:
    "create_meal_plan_pdf lib client_name total_calories meals_data = Inr elements"
    "meal_headers lib = Inr header"
    "elements ! 2 = Table (header # body)"
    "length body = Max (set (map (\<lambda>m. length (dict_get (items m) [])) meals_data))"
    "\<And>r. r < length body \<Longrightarrow> length (body ! r) = 5"
    "\<And>r j. r < length body \<Longrightarrow> j < 5 \<Longrightarrow>
       cell lib meals_data (4 - j) r = Inr (body ! r ! j)"
    by blast
  have blank: "body ! r ! j = ''''"
    if "r < length body" "j < 5"
       "\<not> (4 - j < length meals_data \<and> r < length (dict_get (items (meals_data ! (4 - j))) []))"
    for r j
    using g(6) [OF that(1,2)] cell_blank [OF that(3), of lib] by simp
  have "\<forall>row_idx < length body. length (body ! row_idx) = 5 \<and>
          (\<forall>j < 5.
             (length meals_data \<le> 4 - j \<longrightarrow> body ! row_idx ! j = '''') \<and>
             (4 - j < length meals_data \<and>
              length (dict_get (items (meals_data ! (4 - j))) []) \<le> row_idx \<longrightarrow>
              body ! row_idx ! j = ''''))"
  proof (intro allI impI conjI)
    fix row_idx assume "row_idx < length body"
    then show "length (body ! row_idx) = 5" by (rule g(5))
  next
    fix row_idx j assume "row_idx < length body" "j < 5" "length meals_data \<le> 4 - j"
    then show "body ! row_idx ! j = ''''" by (intro blank) simp_all
  next
    fix row_idx j
    assume "row_idx < length body" "j < 5"
      "4 - j < length meals_data \<and>
       length (dict_get (items (meals_data ! (4 - j))) []) \<le> row_idx"
    then show "body ! row_idx ! j = ''''" by (intro blank) simp_all
  qed
  with g(1,2,3,4) show ?thesis by blast
qed

text \<open>
  The example plan has one body row; the columns of the fifth and of the second meal are
  blank.
\<close>

theorem grid_rows_and_padding_witness:
  "rice_plan \<noteq> [] \<and>
   (\<exists>elements header body.
      create_meal_plan_pdf mirror_lib ''client'' 1700 rice_plan = Inr elements \<and>
      meal_headers mirror_lib = Inr header \<and>
      elements ! 2 = Table (header # body) \<and>
      length body = 1 \<and> length (body ! 0) = 5 \<and> body ! 0 ! 0 = '''' \<and> body ! 0 ! 3 = '''')"
proof -
  have ne: "rice_plan \<noteq> []" by (simp add: rice_plan_def)
  have m: "Max (set (map (\<lambda>m. length (dict_get (items m) [])) rice_plan)) = 1"
    by (simp add: rice_plan_def empty_meal_def dict_get_def)
  have c: "length (dict_get (items (rice_plan ! (4 - 0))) []) \<le> 0"
          "length (dict_get (items (rice_plan ! (4 - 3))) []) \<le> 0"
          "4 - 0 < length rice_plan" "4 - 3 < length rice_plan"
    by (simp_all add: rice_plan_def empty_meal_def dict_get_def)
  from grid_rows_and_padding [OF ne, of mirror_lib "''client''" 1700]
  show ?thesis unfolding m using ne c by fastforce
qed

text \<open>
  Claim C3.  For a collection of five meals, column \<open>j\<close> of every body row (counted from
  the left, from 0) shows meal \<open>4 - j\<close>: the shaped label of that meal's item at the row's
  index, or the empty string when the meal has no such item.  The rightmost column, 4,
  shows the first stored meal.
\<close>

theorem grid_columns_reversed:
  assumes "length meals_data = 5"
  shows "\<exists>elements header body.
           create_meal_plan_pdf lib client_name total_calories meals_data = Inr elements \<and>
           elements ! 2 = Table (header # body) \<and>
           (\<forall>row_idx < length body. \<forall>j < 5.
              Inr (body ! row_idx ! j) =
                (if row_idx < length (dict_get (items (meals_data ! (4 - j))) [])
                 then reshape_arabic lib
                        (PyStr (item_label
                                 (dict_get (items (meals_data ! (4 - j))) [] ! row_idx)))
                 else Inr '''')) \<and>
           (\<forall>row_idx < length body.
              Inr (body ! row_idx ! 4) =
                (if row_idx < length (dict_get (items (meals_data ! 0)) [])
                 then reshape_arabic lib
                        (PyStr (item_label (dict_get (items (meals_data ! 0)) [] ! row_idx)))
                 else Inr ''''))"
proof -
  from assms have ne: "meals_data \<noteq> []" by auto
  from create_meal_plan_pdf_grid [OF ne, of lib client_name total_calories]
  obtain elements header body where g:
    "create_meal_plan_pdf lib client_name total_calories meals_data = Inr elements"
    "elements ! 2 = Table (header # body)"
    "\<And>r j. r < length body \<Longrightarrow> j < 5 \<Longrightarrow>
       cell lib meals_data (4 - j) r = Inr (body ! r ! j)"
    by blast
  have col: "Inr (body ! r ! j) =
      (if r < length (dict_get (items (meals_data ! (4 - j))) [])
       then reshape_arabic lib
              (PyStr (item_label (dict_get (items (meals_data ! (4 - j))) [] ! r)))
       else Inr '''')"
    if "r < length body" "j < 5" for r j
  proof (cases "r < length (dict_get (items (meals_data ! (4 - j))) [])")
    case True
    moreover have "4 - j < length meals_data" using assms by simp
    ultimately show ?thesis
      using g(3) [OF that] by (simp add: cell_occupied)
  next
    case False
    then show ?thesis using g(3) [OF that] by (simp add: cell_blank)
  qed
  have "\<forall>row_idx < length body. \<forall>j < 5.
          Inr (body ! row_idx ! j) =
            (if row_idx < length (dict_get (items (meals_data ! (4 - j))) [])
             then reshape_arabic lib
                    (PyStr (item_label
                             (dict_get (items (meals_data ! (4 - j))) [] ! row_idx)))
             else Inr '''')"
    using col by blast
  moreover have "\<forall>row_idx < length body.
          Inr (body ! row_idx ! 4) =
            (if row_idx < length (dict_get (items (meals_data ! 0)) [])
             then reshape_arabic lib
                    (PyStr (item_label (dict_get (items (meals_data ! 0)) [] ! row_idx)))
             else Inr '''')"
    using col [of _ 4] by simp
  ultimately show ?thesis using g(1,2) by blast
qed

text \<open>
  In the example plan the only item belongs to the first meal and appears in the last
  column.
\<close>

theorem grid_columns_reversed_witness:
  "length rice_plan = 5 \<and>
   (\<exists>elements header body.
      create_meal_plan_pdf mirror_lib ''client'' 1700 rice_plan = Inr elements \<and>
      elements ! 2 = Table (header # body) \<and>
      reshape_arabic mirror_lib (PyStr (item_label rice)) = Inr (body ! 0 ! 4) \<and>
      body ! 0 ! 0 = '''')"
proof -
  have len: "length rice_plan = 5" by (simp add: rice_plan_def)
  have m: "Max (set (map (\<lambda>m. length (dict_get (items m) [])) rice_plan)) = 1"
    by (simp add: rice_plan_def empty_meal_def dict_get_def)
  have c: "dict_get (items (rice_plan ! 0)) [] = [rice]"
          "dict_get (items (rice_plan ! (4 - 0))) [] = []"
    by (simp_all add: rice_plan_def empty_meal_def dict_get_def)
  from grid_columns_reversed [OF len, of mirror_lib "''client''" 1700]
  obtain elements header body where g:
    "create_meal_plan_pdf mirror_lib ''client'' 1700 rice_plan = Inr elements"
    "elements ! 2 = Table (header # body)"
    "\<forall>row_idx < length body. \<forall>j < 5.
              Inr (body ! row_idx ! j) =
                (if row_idx < length (dict_get (items (rice_plan ! (4 - j))) [])
                 then reshape_arabic mirror_lib
                        (PyStr (item_label
                                 (dict_get (items (rice_plan ! (4 - j))) [] ! row_idx)))
                 else Inr '''')"
    "\<forall>row_idx < length body.
              Inr (body ! row_idx ! 4) =
                (if row_idx < length (dict_get (items (rice_plan ! 0)) [])
                 then reshape_arabic mirror_lib
                        (PyStr (item_label (dict_get (items (rice_plan ! 0)) [] ! row_idx)))
                 else Inr '''')"
    by blast
  from len have ne: "rice_plan \<noteq> []" by auto
  from create_meal_plan_pdf_grid [OF ne, of mirror_lib "''client''" 1700]
  obtain elements' header' body' where g':
    "create_meal_plan_pdf mirror_lib ''client'' 1700 rice_plan = Inr elements'"
    "elements' ! 2 = Table (header' # body')"
    "length body' = Max (set (map (\<lambda>m. length (dict_get (items m) [])) rice_plan))"
    by blast
  from g(1,2) g'(1,2) have "body = body'" by simp
  with g'(3) m have l: "0 < length body" by simp
  have "reshape_arabic mirror_lib (PyStr (item_label rice)) = Inr (body ! 0 ! 4)"
    using g(4) [rule_format, OF l] c by simp
  moreover have "body ! 0 ! 0 = ''''"
    using g(3) [rule_format, OF l, of 0] c by simp
  ultimately show ?thesis using len g(1,2) by blast
qed

text \<open>
  Claim C4.  A cell whose slot holds an item is the shaping of a label: when the item's
  amount is present and not zero, the amount in decimal, a space, the unit word, a space
  and the description; otherwise the description alone (the empty text when the
  description is absent).  A cell whose slot holds no item is the empty string.
\<close>

theorem cell_label_format:
  assumes "meals_data \<noteq> []"
  shows "\<exists>elements header body.
           create_meal_plan_pdf lib client_name total_calories meals_data = Inr elements \<and>
           elements ! 2 = Table (header # body) \<and>
           (\<forall>row_idx < length body. \<forall>j < 5.
              if 4 - j < length meals_data \<and>
                 row_idx < length (dict_get (items (meals_data ! (4 - j))) [])
              then (let it = dict_get (items (meals_data ! (4 - j))) [] ! row_idx;
                        description = dict_get (food_text it) ''''
                    in Inr (body ! row_idx ! j) =
                       reshape_arabic lib
                         (PyStr (case amount it of
                                   None \<Rightarrow> description
                                 | Some a \<Rightarrow>
                                     if a \<noteq> 0
                                     then str_int a @ '' '' @ gram_word @ '' '' @ description
                                     else description)))
              else body ! row_idx ! j = '''')"
proof -
  from create_meal_plan_pdf_grid [OF assms, of lib client_name total_calories]
  obtain elements header body where g:
    "create_meal_plan_pdf lib client_name total_calories meals_data = Inr elements"
    "elements ! 2 = Table (header # body)"
    "\<And>r j. r < length body \<Longrightarrow> j < 5 \<Longrightarrow>
       cell lib meals_data (4 - j) r = Inr (body ! r ! j)"
    by blast
  have "if 4 - j < length meals_data \<and>
           r < length (dict_get (items (meals_data ! (4 - j))) [])
        then (let it = dict_get (items (meals_data ! (4 - j))) [] ! r;
                  description = dict_get (food_text it) ''''
              in Inr (body ! r ! j) =
                 reshape_arabic lib
                   (PyStr (case amount it of
                             None \<Rightarrow> description
                           | Some a \<Rightarrow>
                               if a \<noteq> 0
                               then str_int a @ '' '' @ gram_word @ '' '' @ description
                               else description)))
        else body ! r ! j = ''''"
    if "r < length body" "j < 5" for r j
  proof (cases "4 - j < length meals_data \<and>
                r < length (dict_get (items (meals_data ! (4 - j))) [])")
    case True
    then have "Inr (body ! r ! j) =
      reshape_arabic lib
        (PyStr (item_label (dict_get (items (meals_data ! (4 - j))) [] ! r)))"
      using g(3) [OF that] by (simp add: cell_occupied)
    with True show ?thesis by (simp add: item_label_def Let_def)
  next
    case False
    then have "body ! r ! j = ''''"
      using g(3) [OF that] cell_blank [OF False, of lib] by simp
    with False show ?thesis by auto
  qed
  with g(1,2) show ?thesis by blast
qed

text \<open>
  With a shaping library that raises, the cell of the example item is its raw label:
  \<open>100\<close>, the unit word and \<open>rice\<close>.
\<close>

theorem cell_label_format_witness:
  "rice_plan \<noteq> [] \<and>
   (\<exists>elements header body.
      create_meal_plan_pdf failing_lib ''client'' 1700 rice_plan = Inr elements \<and>
      elements ! 2 = Table (header # body) \<and>
      body ! 0 ! 4 = ''100 '' @ gram_word @ '' rice'' \<and>
      body ! 0 ! 1 = '''')"
proof -
  have ne: "rice_plan \<noteq> []" by (simp add: rice_plan_def)
  have m: "Max (set (map (\<lambda>m. length (dict_get (items m) [])) rice_plan)) = 1"
    by (simp add: rice_plan_def empty_meal_def dict_get_def)
  have c: "dict_get (items (rice_plan ! (4 - 4))) [] = [rice]"
          "dict_get (items (rice_plan ! (4 - 1))) [] = []"
          "length rice_plan = 5"
    by (simp_all add: rice_plan_def empty_meal_def dict_get_def)
  have s: "str_int 100 = ''100''" by (simp add: str_int_def)
  have f: "reshape_arabic failing_lib (PyStr (''100 '' @ gram_word @ '' rice'')) =
           Inr (''100 '' @ gram_word @ '' rice'')"
    by (simp add: reshape_arabic_text failing_lib_def)
  from cell_label_format [OF ne, of failing_lib "''client''" 1700]
  obtain elements header body where g:
    "create_meal_plan_pdf failing_lib ''client'' 1700 rice_plan = Inr elements"
    "elements ! 2 = Table (header # body)"
    "\<forall>row_idx < length body. \<forall>j < 5.
              if 4 - j < length rice_plan \<and>
                 row_idx < length (dict_get (items (rice_plan ! (4 - j))) [])
              then (let it = dict_get (items (rice_plan ! (4 - j))) [] ! row_idx;
                        description = dict_get (food_text it) ''''
                    in Inr (body ! row_idx ! j) =
                       reshape_arabic failing_lib
                         (PyStr (case amount it of
                                   None \<Rightarrow> description
                                 | Some a \<Rightarrow>
                                     if a \<noteq> 0
                                     then str_int a @ '' '' @ gram_word @ '' '' @ description
                                     else description)))
              else body ! row_idx ! j = ''''"
    by blast
  from create_meal_plan_pdf_grid [OF ne, of failing_lib "''client''" 1700]
  obtain elements' header' body' where g':
    "create_meal_plan_pdf failing_lib ''client'' 1700 rice_plan = Inr elements'"
    "elements' ! 2 = Table (header' # body')"
    "length body' = Max (set (map (\<lambda>m. length (dict_get (items m) [])) rice_plan))"
    by blast
  from g(1,2) g'(1,2) have "body = body'" by simp
  with g'(3) m have l: "0 < length body" by simp
  have "Inr (body ! 0 ! 4) =
        reshape_arabic failing_lib (PyStr (''100 '' @ gram_word @ '' rice''))"
    using g(3) [rule_format, OF l, of 4] c s by (simp add: rice_def dict_get_def)
  then have "body ! 0 ! 4 = ''100 '' @ gram_word @ '' rice''"
    by (simp only: f sum.inject)
  moreover have "body ! 0 ! 1 = ''''"
    using g(3) [rule_format, OF l, of 1] c by simp
  ultimately show ?thesis using ne g(1,2) by blast
qed

section \<open>Plans without items, plans without meals\<close>

text \<open>
  Claim C7.  The claim asks for a report with zero body rows whenever no meal contains an
  item.  The collection of zero meals is such a collection, and there the code raises
  instead: the maximum on line 141 is taken over an empty sequence, so
  \<open>create_meal_plan_pdf\<close> ends with \<open>ValueError\<close>, although the aggregator, called
  first, accepts the same collection.
\<close>

theorem no_meals_raises:
  "list_all (\<lambda>m. dict_get (items m) [] = []) [] \<and>
   calculate_macros [] = (0, 0, 0, 0) \<and>
   py_max [length (dict_get (items m) []). m \<leftarrow> []] = Inl ValueError \<and>
   create_meal_plan_pdf lib client_name total_calories [] = Inl ValueError"
  by (simp add: create_meal_plan_pdf_Nil calculate_macros_eq)

text \<open>
  With at least one meal and no items the row count is 0 and the table handed to the
  document builder is the header row alone.
\<close>

lemma empty_items_zero_rows:
  assumes "meals_data \<noteq> []"
    and "\<forall>m \<in> set meals_data. dict_get (items m) [] = []"
  shows "\<exists>elements header.
           create_meal_plan_pdf lib client_name total_calories meals_data = Inr elements \<and>
           meal_headers lib = Inr header \<and>
           elements ! 2 = Table [header]"
proof -
  from create_meal_plan_pdf_grid [OF assms(1), of lib client_name total_calories]
  obtain elements header body where g:
    "create_meal_plan_pdf lib client_name total_calories meals_data = Inr elements"
    "meal_headers lib = Inr header"
    "elements ! 2 = Table (header # body)"
    "length body = Max (set (map (\<lambda>m. length (dict_get (items m) [])) meals_data))"
    by blast
  have "set (map (\<lambda>m. length (dict_get (items m) [])) meals_data) = {0}"
    using assms by (cases meals_data) auto
  with g(4) have "body = []" by simp
  with g(1,2,3) show ?thesis by simp
qed

text \<open>
  Claim C10.  Document generation returns a document exactly for the collections with at
  least one meal.  The row count is the built-in maximum of the item counts, which is
  defined for a non-empty collection and raises \<open>ValueError\<close> for zero meals; the aggregator
  accepts zero meals and returns zeros.
\<close>

theorem generation_needs_a_meal:
  "(\<exists>elements. create_meal_plan_pdf lib client_name total_calories meals_data = Inr elements)
     = (meals_data \<noteq> []) \<and>
   create_meal_plan_pdf lib client_name total_calories [] = Inl ValueError \<and>
   py_max [length (dict_get (items m) []). m \<leftarrow> meals_data] =
     (if meals_data = [] then Inl ValueError
      else Inr (Max (set (map (\<lambda>m. length (dict_get (items m) [])) meals_data)))) \<and>
   calculate_macros [] = (0, 0, 0, 0)"
proof (intro conjI)
  show "(\<exists>elements. create_meal_plan_pdf lib client_name total_calories meals_data = Inr elements)
     = (meals_data \<noteq> [])"
  proof (cases "meals_data = []")
    case True
    then show ?thesis by (simp add: create_meal_plan_pdf_Nil)
  next
    case False
    then show ?thesis by (simp add: create_meal_plan_pdf_eq)
  qed
  show "create_meal_plan_pdf lib client_name total_calories [] = Inl ValueError"
    by (rule create_meal_plan_pdf_Nil)
  show "py_max [length (dict_get (items m) []). m \<leftarrow> meals_data] =
     (if meals_data = [] then Inl ValueError
      else Inr (Max (set (map (\<lambda>m. length (dict_get (items m) [])) meals_data))))"
    by (cases "meals_data = []") (simp_all add: py_max_Max del: set_map)
  show "calculate_macros [] = (0, 0, 0, 0)"
    by (simp add: calculate_macros_eq)
qed

text \<open>
  The initial plan yields a document, the empty list an exception.
\<close>

theorem generation_needs_a_meal_witness:
  "(\<exists>elements. create_meal_plan_pdf mirror_lib ''client'' 1700 empty_plan = Inr elements) \<and>
   create_meal_plan_pdf mirror_lib ''client'' 1700 [] = Inl ValueError \<and>
   calculate_macros [] = (0, 0, 0, 0)"
proof -
  have ne: "empty_plan \<noteq> []" by (simp add: empty_plan_def)
  from generation_needs_a_meal [of mirror_lib "''client''" 1700 empty_plan] ne
  show ?thesis by simp
qed

section \<open>Header and footer\<close>

text \<open>
  Claim C8.  The first element of the document is the header paragraph.  Its text is what
  the shaping step makes of the raw header, the literal text around the decimal form of
  the \<open>total_calories\<close> argument: the display library's output when both library calls
  return, and the raw header itself, declared count included, when either raises.  The
  meals do not enter it.  After the table come the paragraph made in the same way from
  the raw text with the computed totals of protein, carbs and fat, and then the paragraph
  made from the fixed attribution line.
\<close>

theorem header_and_footer_text:
  assumes "meals_data \<noteq> []"
  shows "\<exists>header_text d macros_text website_text.
           create_meal_plan_pdf lib client_name total_calories meals_data =
             Inr [Paragraph header_text HeaderStyle,
                  Spacer 1 15,
                  Table d,
                  Spacer 1 15,
                  Paragraph macros_text FooterStyle,
                  Spacer 1 10,
                  Paragraph website_text FooterStyle] \<and>
           header_text =
             (let raw = header_prefix @ str_int total_calories @ header_suffix
              in case reshape lib raw of
                   Inl e \<Rightarrow> raw
                 | Inr r \<Rightarrow> (case get_display lib r of Inl e \<Rightarrow> raw | Inr shown \<Rightarrow> shown)) \<and>
           macros_text =
             (let raw =
                total_protein_caption @
                str_int (\<Sum>m\<leftarrow>meals_data. \<Sum>it\<leftarrow>dict_get (items m) []. dict_get (protein it) 0) @
                '' '' @ gram_sign @ ''     '' @
                total_carbs_caption @
                str_int (\<Sum>m\<leftarrow>meals_data. \<Sum>it\<leftarrow>dict_get (items m) []. dict_get (carbs it) 0) @
                '' '' @ gram_sign @ ''     '' @
                total_fat_caption @
                str_int (\<Sum>m\<leftarrow>meals_data. \<Sum>it\<leftarrow>dict_get (items m) []. dict_get (fat it) 0) @
                '' '' @ gram_sign
              in case reshape lib raw of
                   Inl e \<Rightarrow> raw
                 | Inr r \<Rightarrow> (case get_display lib r of Inl e \<Rightarrow> raw | Inr shown \<Rightarrow> shown)) \<and>
           website_text =
             (let raw = ''HTTPS://CAP-SHADOW.NETLIFY.APP/''
              in case reshape lib raw of
                   Inl e \<Rightarrow> raw
                 | Inr r \<Rightarrow> (case get_display lib r of Inl e \<Rightarrow> raw | Inr shown \<Rightarrow> shown))"
proof -
  have p: "projr (reshape_arabic lib (PyStr s)) =
           (case reshape lib s of
              Inl e \<Rightarrow> s
            | Inr r \<Rightarrow> (case get_display lib r of Inl e \<Rightarrow> s | Inr shown \<Rightarrow> shown))"
    if "s \<noteq> []" for s
    using that by (simp add: reshape_arabic_text)
  have h: "header_prefix @ str_int total_calories @ header_suffix \<noteq> []"
    by (simp add: header_prefix_def)
  have m: "total_protein_caption @ x \<noteq> []" for x
    by (simp add: total_protein_caption_def)
  have w: "''HTTPS://CAP-SHADOW.NETLIFY.APP/'' \<noteq> []" by simp
  show ?thesis
    unfolding Let_def p [OF h, symmetric] p [OF m, symmetric] p [OF w, symmetric]
      create_meal_plan_pdf_eq [OF assms]
    by blast
qed

text \<open>
  For the example plan the computed calories are 205 and the declared count is 1700.
  With a shaping library that raises, the header is the raw text with 1700 and the footer
  the raw text with 4, 45 and 1.  The sample library returns the attribution line, which
  is ASCII, unchanged and the header reversed, a text that differs from the raw header.
\<close>

theorem header_and_footer_text_witness:
  "rice_plan \<noteq> [] \<and> calculate_macros rice_plan = (4, 45, 1, 205) \<and>
   (\<exists>d. create_meal_plan_pdf failing_lib ''client'' 1700 rice_plan =
         Inr [Paragraph (header_prefix @ ''1700'' @ header_suffix) HeaderStyle,
              Spacer 1 15,
              Table d,
              Spacer 1 15,
              Paragraph (total_protein_caption @ ''4'' @ '' '' @ gram_sign @ ''     '' @
                         total_carbs_caption @ ''45'' @ '' '' @ gram_sign @ ''     '' @
                         total_fat_caption @ ''1'' @ '' '' @ gram_sign) FooterStyle,
              Spacer 1 10,
              Paragraph ''HTTPS://CAP-SHADOW.NETLIFY.APP/'' FooterStyle]) \<and>
   (\<exists>d macros_text.
       create_meal_plan_pdf mirror_lib ''client'' 1700 rice_plan =
         Inr [Paragraph (rev (header_prefix @ ''1700'' @ header_suffix)) HeaderStyle,
              Spacer 1 15,
              Table d,
              Spacer 1 15,
              Paragraph macros_text FooterStyle,
              Spacer 1 10,
              Paragraph ''HTTPS://CAP-SHADOW.NETLIFY.APP/'' FooterStyle])"
proof -
  have ne: "rice_plan \<noteq> []" by (simp add: rice_plan_def)
  have t: "(\<Sum>m\<leftarrow>rice_plan. \<Sum>it\<leftarrow>dict_get (items m) []. dict_get (protein it) 0) = 4"
          "(\<Sum>m\<leftarrow>rice_plan. \<Sum>it\<leftarrow>dict_get (items m) []. dict_get (carbs it) 0) = 45"
          "(\<Sum>m\<leftarrow>rice_plan. \<Sum>it\<leftarrow>dict_get (items m) []. dict_get (fat it) 0) = 1"
    by (simp_all add: rice_plan_def rice_def empty_meal_def dict_get_def)
  have s: "str_int 1700 = ''1700''" "str_int 4 = ''4''" "str_int 45 = ''45''" "str_int 1 = ''1''"
    by (simp_all add: str_int_def)
  have c: "calculate_macros rice_plan = (4, 45, 1, 205)"
    by (simp add: calculate_macros_eq t)
  have a: "\<not> ascii_text (header_prefix @ ''1700'' @ header_suffix)"
    by (simp add: ascii_text_def header_prefix_def)
  have u: "ascii_text ''HTTPS://CAP-SHADOW.NETLIFY.APP/''"
    by (simp add: ascii_text_def)
  have 1: "\<exists>d. create_meal_plan_pdf failing_lib ''client'' 1700 rice_plan =
         Inr [Paragraph (header_prefix @ ''1700'' @ header_suffix) HeaderStyle,
              Spacer 1 15,
              Table d,
              Spacer 1 15,
              Paragraph (total_protein_caption @ ''4'' @ '' '' @ gram_sign @ ''     '' @
                         total_carbs_caption @ ''45'' @ '' '' @ gram_sign @ ''     '' @
                         total_fat_caption @ ''1'' @ '' '' @ gram_sign) FooterStyle,
              Spacer 1 10,
              Paragraph ''HTTPS://CAP-SHADOW.NETLIFY.APP/'' FooterStyle]"
    using header_and_footer_text [OF ne, of failing_lib "''client''" 1700]
    unfolding t s by (simp add: failing_lib_def)
  have 2: "\<exists>d macros_text.
       create_meal_plan_pdf mirror_lib ''client'' 1700 rice_plan =
         Inr [Paragraph (rev (header_prefix @ ''1700'' @ header_suffix)) HeaderStyle,
              Spacer 1 15,
              Table d,
              Spacer 1 15,
              Paragraph macros_text FooterStyle,
              Spacer 1 10,
              Paragraph ''HTTPS://CAP-SHADOW.NETLIFY.APP/'' FooterStyle]"
    using header_and_footer_text [OF ne, of mirror_lib "''client''" 1700] a u
    unfolding t s by (auto simp add: mirror_lib_def Let_def simp del: rev_append)
  from ne c 1 2 show ?thesis by blast
qed

section \<open>The shaping transform on an input other than text\<close>

text \<open>
  Claim C9.  The claim is that the shaping transform never raises, on any input, and
  falls back to the raw input as a string.  The code catches what happens inside its
  \<open>try\<close> only.  For an integer of 4301 digits \<open>str(text)\<close> raises \<open>ValueError\<close> inside
  the \<open>try\<close>; the handler calls \<open>str(text)\<close> again, outside, and the exception leaves
  the function.  Likewise an exception of the truth test \<open>not text\<close>, or of \<open>str\<close> of
  an object of another class, leaves the function.
\<close>

theorem reshape_arabic_raises:
  "reshape_arabic lib (PyInt (10 ^ 4300)) = Inl ValueError \<and>
   reshape_arabic lib (PyInt (- (10 ^ 4300))) = Inl ValueError \<and>
   reshape_arabic lib (PyObject (Inl e) s) = Inl e \<and>
   reshape_arabic lib (PyObject (Inr True) (Inl e)) = Inl e"
proof -
  have big: "n \<noteq> 0" if "10 ^ int_max_str_digits \<le> \<bar>n\<bar>" for n :: int
  proof -
    have "0 < (10::int) ^ int_max_str_digits" by (rule zero_less_power) simp
    from this that have "0 < \<bar>n\<bar>" by (rule less_le_trans)
    then show ?thesis by simp
  qed
  have r: "reshape_arabic lib (PyInt n) = Inl ValueError"
    if "10 ^ int_max_str_digits \<le> \<bar>n\<bar>" for n
    using big [OF that] py_str_long_int [OF that]
    by (simp add: reshape_arabic_def del: py_str.simps)
  have "(10::int) ^ int_max_str_digits \<le> \<bar>10 ^ 4300\<bar>"
    by (simp only: int_max_str_digits_def power_abs abs_numeral order_refl)
  moreover have "(10::int) ^ int_max_str_digits \<le> \<bar>- (10 ^ 4300)\<bar>"
    by (simp only: int_max_str_digits_def abs_minus_cancel power_abs abs_numeral order_refl)
  moreover have "reshape_arabic lib (PyObject (Inl e) s) = Inl e"
    by (simp add: reshape_arabic_def)
  moreover have "reshape_arabic lib (PyObject (Inr True) (Inl e)) = Inl e"
    by (simp add: reshape_arabic_def)
  ultimately show ?thesis using r by blast
qed


end
